theory Spec2Isabelle
  imports Main "HOL-Library.Sublist" "HOL-Library.Word"
begin

section \<open>The verification script \<open>verify_mui_ui.py\<close>\<close>

text \<open>
  The repository is one Python script:
  \<^verbatim>\<open>
  from playwright.sync_api import sync_playwright

  def run():
      with sync_playwright() as p:
          browser = p.chromium.launch(headless=True)
          page = browser.new_page()
          page.goto("http://localhost:8080/")
          page.wait_for_selector("h1") # Wait for the main heading to be visible
          page.screenshot(path="jules-scratch/verification/verification.png")
          browser.close()

  if __name__ == "__main__":
      run()
  \<close>
  Every statement of \<open>run\<close> is a call into the Playwright library. The script is embedded
  as it is written (a \<open>with\<close> block around six calls in sequence); the library and the
  operating system are the environment: which call raises, and which image a capture
  yields, is a parameter of every definition below.
\<close>

subsection \<open>Data\<close>

type_synonym byte = "8 word"

text \<open>The exceptions a call can raise: Playwright's \<open>Error\<close> and \<open>TimeoutError\<close>, and the
  operating system's errors on writing a file.\<close>

datatype exn =
    Error string
  | TimeoutError string
  | PermissionError string
  | FileNotFoundError string

text \<open>Keyword arguments: \<open>None\<close> is an argument the call does not pass.\<close>

record launch_kwargs =
  headless :: "bool option"

record screenshot_kwargs =
  path :: "string option"
  full_page :: "bool option"

text \<open>The library calls of the script. The receivers (\<open>p\<close>, \<open>browser\<close>, \<open>page\<close>) are the
  single session, browser and page of the run. Entering and leaving the \<open>with\<close> block
  are the calls \<open>__enter__\<close> and \<open>__exit__\<close> of \<open>sync_playwright()\<close>.\<close>

datatype call =
    Sync_playwright_enter
  | Chromium_launch launch_kwargs
  | Browser_new_page
  | Page_goto string
  | Page_wait_for_selector string
  | Page_screenshot screenshot_kwargs
  | Browser_close
  | Sync_playwright_exit

text \<open>The environment of one run: for each call whether it raises (and what); the
  encoded image data the page would yield, for its viewport and for its full scrollable
  height; and what a screenshot that fails leaves of its file: \<open>None\<close> when it fails
  before the file is opened, \<open>Some bs\<close> when the file was opened for writing, which
  empties it, and \<open>bs\<close> (possibly nothing) was written before the failure.\<close>

record library =
  raises :: "call \<Rightarrow> exn option"
  viewport_pixels :: "byte list"
  full_page_pixels :: "byte list"
  aborted_write :: "byte list option"

text \<open>What a run can observe and change: the process's arguments and environment
  variables, the driver and browser subprocesses, the files on disk, and the log of the
  library calls made, each with its outcome.\<close>

record world =
  argv :: "string list"
  environ :: "string \<rightharpoonup> string"
  driver_running :: bool
  browser_running :: bool
  files :: "string \<rightharpoonup> byte list"
  trace :: "(call \<times> exn option) list"

subsection \<open>The library, as the script uses it\<close>

text \<open>A screenshot is a PNG image (Playwright's default type, and the type of a \<open>.png\<close>
  path): the eight bytes of the PNG signature, then the image data.\<close>

definition png_signature :: "byte list" where
  "png_signature = [137, 80, 78, 71, 13, 10, 26, 10]"

text \<open>Playwright's \<open>full_page\<close> defaults to false: a capture is of the viewport unless the
  call asks for the full page.\<close>

definition captured :: "library \<Rightarrow> screenshot_kwargs \<Rightarrow> byte list" where
  "captured lib kw =
     png_signature @
     (case full_page kw of
        Some True \<Rightarrow> full_page_pixels lib
      | _ \<Rightarrow> viewport_pixels lib)"

text \<open>The effect of a call that returns, as Playwright documents it. Entering the session
  starts the driver subprocess; a launch starts the browser subprocess; a screenshot with
  a \<open>path\<close> writes the image to that file, replacing what was there; closing the browser
  ends its subprocess; leaving the session stops the driver, which takes the browser it
  spawned down with it. Opening a page, navigating and waiting change neither the files
  nor the subprocesses.\<close>

fun effect :: "library \<Rightarrow> call \<Rightarrow> world \<Rightarrow> world" where
  "effect lib Sync_playwright_enter w = w\<lparr>driver_running := True\<rparr>"
| "effect lib (Chromium_launch kw) w = w\<lparr>browser_running := True\<rparr>"
| "effect lib Browser_new_page w = w"
| "effect lib (Page_goto url) w = w"
| "effect lib (Page_wait_for_selector sel) w = w"
| "effect lib (Page_screenshot kw) w =
     (case path kw of
        None \<Rightarrow> w
      | Some f \<Rightarrow> w\<lparr>files := (files w)(f \<mapsto> captured lib kw)\<rparr>)"
| "effect lib Browser_close w = w\<lparr>browser_running := False\<rparr>"
| "effect lib Sync_playwright_exit w = w\<lparr>driver_running := False, browser_running := False\<rparr>"

text \<open>The effect of a call that raises. A screenshot with a \<open>path\<close> writes its file by
  opening it for writing and then writing the image, so a write that fails can leave the
  file emptied or partly written, as the environment says. Leaving the session stops the
  driver, and the browser with it, before any error is reported. Any other call that
  raises leaves the files and the subprocesses as they were.\<close>

fun aborted :: "library \<Rightarrow> call \<Rightarrow> world \<Rightarrow> world" where
  "aborted lib Sync_playwright_enter w = w"
| "aborted lib (Chromium_launch kw) w = w"
| "aborted lib Browser_new_page w = w"
| "aborted lib (Page_goto url) w = w"
| "aborted lib (Page_wait_for_selector sel) w = w"
| "aborted lib (Page_screenshot kw) w =
     (case path kw of
        None \<Rightarrow> w
      | Some f \<Rightarrow>
          (case aborted_write lib of
             None \<Rightarrow> w
           | Some bs \<Rightarrow> w\<lparr>files := (files w)(f \<mapsto> bs)\<rparr>))"
| "aborted lib Browser_close w = w"
| "aborted lib Sync_playwright_exit w = w\<lparr>driver_running := False, browser_running := False\<rparr>"

text \<open>What a call does to the world, by its outcome.\<close>

definition world_effect :: "library \<Rightarrow> call \<Rightarrow> world \<Rightarrow> world" where
  "world_effect lib c w =
     (case raises lib c of
        None \<Rightarrow> effect lib c w
      | Some e \<Rightarrow> aborted lib c w)"

text \<open>An action returns a value or raises, and leaves a world behind.\<close>

type_synonym 'a action = "world \<Rightarrow> (exn + 'a) \<times> world"

text \<open>One library call: it is logged with its outcome; when it returns, its effect takes
  place and the call returns; when it raises, the world is as the failed call leaves
  it.\<close>

definition perform :: "library \<Rightarrow> call \<Rightarrow> unit action" where
  "perform lib c w =
     (let w' = w\<lparr>trace := trace w @ [(c, raises lib c)]\<rparr> in
      case raises lib c of
        None \<Rightarrow> (Inr (), effect lib c w')
      | Some e \<Rightarrow> (Inl e, aborted lib c w'))"

subsection \<open>Python's control flow\<close>

text \<open>Two statements in sequence: an exception raised by the first skips the second.\<close>

definition seq :: "unit action \<Rightarrow> unit action \<Rightarrow> unit action" where
  "seq m k w =
     (case m w of
        (Inl e, w') \<Rightarrow> (Inl e, w')
      | (Inr _, w') \<Rightarrow> k w')"

text \<open>\<open>with enter as p: body\<close>, for a context manager whose \<open>__exit__\<close> returns \<open>None\<close>
  (it does not swallow exceptions): when \<open>__enter__\<close> raises, neither the body nor
  \<open>__exit__\<close> runs; otherwise \<open>__exit__\<close> runs however the body ends, the body's exception
  goes on propagating, and an exception of \<open>__exit__\<close> itself takes its place.\<close>

definition with_stmt :: "unit action \<Rightarrow> unit action \<Rightarrow> unit action \<Rightarrow> unit action" where
  "with_stmt enter exit body w =
     (case enter w of
        (Inl e, w1) \<Rightarrow> (Inl e, w1)
      | (Inr _, w1) \<Rightarrow>
          (case body w1 of
             (r, w2) \<Rightarrow>
               (case exit w2 of
                  (Inl e', w3) \<Rightarrow> (Inl e', w3)
                | (Inr _, w3) \<Rightarrow> (r, w3))))"

subsection \<open>The script\<close>

text \<open>The three string literals of \<open>run\<close>.\<close>

definition target_url :: string where
  "target_url = ''http://localhost:8080/''"

definition heading_selector :: string where
  "heading_selector = ''h1''"

definition output_path :: string where
  "output_path = ''jules-scratch/verification/verification.png''"

definition run :: "library \<Rightarrow> unit action" where
  "run lib =
     with_stmt (perform lib Sync_playwright_enter) (perform lib Sync_playwright_exit)
       (seq (perform lib (Chromium_launch \<lparr>headless = Some True\<rparr>))
       (seq (perform lib Browser_new_page)
       (seq (perform lib (Page_goto target_url))
       (seq (perform lib (Page_wait_for_selector heading_selector))
       (seq (perform lib (Page_screenshot
               \<lparr>path = Some output_path,
                full_page = None\<rparr>))
            (perform lib Browser_close))))))"

text \<open>The module body: \<open>if __name__ == "__main__": run()\<close>.\<close>

definition module_body :: "string \<Rightarrow> library \<Rightarrow> unit action" where
  "module_body name lib = (if name = ''__main__'' then run lib else (\<lambda>w. (Inr (), w)))"

text \<open>Running the file as a script executes the module under the name \<open>__main__\<close>.\<close>

definition script :: "library \<Rightarrow> unit action" where
  "script lib = module_body ''__main__'' lib"

text \<open>The interpreter exits with status 0 when the module body returns and with status 1
  when an exception reaches the top level uncaught.\<close>

definition exit_status :: "exn + unit \<Rightarrow> nat" where
  "exit_status r = (case r of Inl e \<Rightarrow> 1 | Inr u \<Rightarrow> 0)"

subsection \<open>The run as an observer sees it\<close>

text \<open>The library calls of one run of the script, with their outcomes: what the run
  appends to the log.\<close>

definition events :: "library \<Rightarrow> world \<Rightarrow> (call \<times> exn option) list" where
  "events lib w = drop (length (trace w)) (trace (snd (script lib w)))"

definition calls_made :: "library \<Rightarrow> world \<Rightarrow> call list" where
  "calls_made lib w = map fst (events lib w)"

text \<open>The calls made inside the \<open>with\<close> block: all but entering and leaving the session.\<close>

definition body_calls :: "library \<Rightarrow> world \<Rightarrow> call list" where
  "body_calls lib w =
     filter (\<lambda>c. c \<noteq> Sync_playwright_enter \<and> c \<noteq> Sync_playwright_exit) (calls_made lib w)"

text \<open>The sequence of operations the specification states: launch Chromium headless, open
  a page, navigate to the URL, wait for the heading, capture to the path, close.\<close>

definition claimed_sequence :: "call list" where
  "claimed_sequence =
     [Chromium_launch \<lparr>headless = Some True\<rparr>,
      Browser_new_page,
      Page_goto target_url,
      Page_wait_for_selector heading_selector,
      Page_screenshot \<lparr>path = Some output_path, full_page = None\<rparr>,
      Browser_close]"

text \<open>Of a list of calls made one after the other, those that are reached: every call up
  to and including the first that raises.\<close>

fun executed :: "library \<Rightarrow> call list \<Rightarrow> call list" where
  "executed lib [] = []"
| "executed lib (c # cs) = c # (if raises lib c = None then executed lib cs else [])"

definition logged :: "library \<Rightarrow> call list \<Rightarrow> (call \<times> exn option) list" where
  "logged lib cs = map (\<lambda>c. (c, raises lib c)) cs"

subsection \<open>Calls in sequence\<close>

text \<open>A list of calls made one after the other, as the statements of a block are.\<close>

fun run_calls :: "library \<Rightarrow> call list \<Rightarrow> unit action" where
  "run_calls lib [] w = (Inr (), w)"
| "run_calls lib (c # cs) w = seq (perform lib c) (run_calls lib cs) w"

text \<open>The outcome of such a block: the first exception raised, if any.\<close>

fun first_raise :: "library \<Rightarrow> call list \<Rightarrow> exn + unit" where
  "first_raise lib [] = Inr ()"
| "first_raise lib (c # cs) =
     (case raises lib c of Some e \<Rightarrow> Inl e | None \<Rightarrow> first_raise lib cs)"

subsection \<open>Sample environments\<close>

text \<open>A process started as \<open>python verify_mui_ui.py\<close>, with no subprocess and no file yet.\<close>

definition fresh_world :: world where
  "fresh_world =
     \<lparr>argv = [''verify_mui_ui.py''], environ = Map.empty, driver_running = False,
      browser_running = False, files = Map.empty, trace = []\<rparr>"

text \<open>Every call returns.\<close>

definition all_ok :: library where
  "all_ok = \<lparr>raises = (\<lambda>c. None), viewport_pixels = [73, 72, 68, 82],
     full_page_pixels = [73, 72, 68, 82, 73, 68, 65, 84],
      aborted_write = None\<rparr>"


text \<open>Nothing listens on port 8080: the navigation raises.\<close>

definition no_server :: library where
  "no_server =
     \<lparr>raises = (\<lambda>c. case c of
                 Page_goto url \<Rightarrow> Some (Error ''net::ERR_CONNECTION_REFUSED'')
               | _ \<Rightarrow> None),
      viewport_pixels = [73, 72, 68, 82], full_page_pixels = [73, 72, 68, 82],
      aborted_write = None\<rparr>"

text \<open>The server answers with a page that has no heading: the wait times out.\<close>

definition no_heading :: library where
  "no_heading =
     \<lparr>raises = (\<lambda>c. case c of
                 Page_wait_for_selector sel \<Rightarrow> Some (TimeoutError ''Timeout 30000ms exceeded.'')
               | _ \<Rightarrow> None),
      viewport_pixels = [73, 72, 68, 82], full_page_pixels = [73, 72, 68, 82],
      aborted_write = None\<rparr>"

text \<open>The output file may not be written: the screenshot raises, having emptied the
  file.\<close>

definition write_denied :: library where
  "write_denied =
     \<lparr>raises = (\<lambda>c. case c of
                 Page_screenshot kw \<Rightarrow> Some (PermissionError ''Permission denied'')
               | _ \<Rightarrow> None),
      viewport_pixels = [73, 72, 68, 82], full_page_pixels = [73, 72, 68, 82],
      aborted_write = Some []\<rparr>"

text \<open>Everything works up to the screenshot, then closing the browser raises.\<close>

definition close_fails :: library where
  "close_fails =
     \<lparr>raises = (\<lambda>c. case c of
                 Browser_close \<Rightarrow> Some (Error ''Connection closed'')
               | _ \<Rightarrow> None),
      viewport_pixels = [73, 72, 68, 82], full_page_pixels = [73, 72, 68, 82],
      aborted_write = None\<rparr>"

section \<open>Properties\<close>

subsection \<open>Calls in sequence stop at the first exception\<close>

lemma prefix_executed: "prefix (executed lib cs) cs"
  by (induction cs) simp_all

lemma executed_all_ok: "\<forall>c\<in>set cs. raises lib c = None \<Longrightarrow> executed lib cs = cs"
  by (induction cs) simp_all

lemma length_executed_iff:
  "i < length (executed lib cs) \<longleftrightarrow> i < length cs \<and> (\<forall>j<i. raises lib (cs ! j) = None)"
proof (induction cs arbitrary: i)
  case Nil
  show ?case by simp
next
  case (Cons c cs)
  show ?case
  proof (cases i)
    case 0
    then show ?thesis by simp
  next
    case (Suc k)
    have "(\<forall>j<Suc k. raises lib ((c # cs) ! j) = None) \<longleftrightarrow>
          raises lib c = None \<and> (\<forall>j<k. raises lib (cs ! j) = None)"
      by (auto simp: less_Suc_eq_0_disj)
    with Suc Cons.IH [of k] show ?thesis by auto
  qed
qed

lemma world_effect_trace_update:
  "world_effect lib c (w\<lparr>trace := t\<rparr>) = (world_effect lib c w)\<lparr>trace := t\<rparr>"
  by (cases c) (simp_all add: world_effect_def split: option.splits)

lemma fold_world_effect_trace_update:
  "fold (world_effect lib) cs (w\<lparr>trace := t\<rparr>) = (fold (world_effect lib) cs w)\<lparr>trace := t\<rparr>"
  by (induction cs arbitrary: w) (simp_all add: world_effect_trace_update)

lemma perform_eq:
  "perform lib c w =
     (case raises lib c of None \<Rightarrow> Inr () | Some e \<Rightarrow> Inl e,
      (world_effect lib c w)\<lparr>trace := trace w @ [(c, raises lib c)]\<rparr>)"
proof (cases "raises lib c")
  case None
  then show ?thesis
    using world_effect_trace_update
      [where lib = lib and c = c and w = w and t = "trace w @ [(c, None)]"]
    by (simp add: perform_def Let_def world_effect_def)
next
  case (Some e)
  then show ?thesis
    using world_effect_trace_update
      [where lib = lib and c = c and w = w and t = "trace w @ [(c, Some e)]"]
    by (simp add: perform_def Let_def world_effect_def)
qed

lemma run_calls_eq:
  "run_calls lib cs w =
     (first_raise lib cs,
      (fold (world_effect lib) (executed lib cs) w)\<lparr>trace := trace w @ logged lib (executed lib cs)\<rparr>)"
proof (induction cs arbitrary: w)
  case Nil
  show ?case by (simp add: logged_def)
next
  case (Cons c cs)
  show ?case
  proof (cases "raises lib c")
    case None
    then show ?thesis
      using Cons.IH
      by (simp add: seq_def perform_eq logged_def fold_world_effect_trace_update)
  next
    case (Some e)
    then show ?thesis
      by (simp add: seq_def perform_eq logged_def)
  qed
qed

subsection \<open>The script, call by call\<close>

lemma seq_last: "seq m (run_calls lib []) = m"
  by (rule ext) (simp add: seq_def split: prod.splits sum.splits)

lemma run_calls_Cons: "run_calls lib (c # cs) = seq (perform lib c) (run_calls lib cs)"
  by (rule ext) simp

lemma run_eq:
  "run lib =
     with_stmt (perform lib Sync_playwright_enter) (perform lib Sync_playwright_exit)
       (run_calls lib claimed_sequence)"
  by (simp add: run_def claimed_sequence_def run_calls_Cons seq_last)


lemma exit_notin_claimed: "Sync_playwright_exit \<notin> set claimed_sequence"
  by (simp add: claimed_sequence_def)

lemma enter_notin_claimed: "Sync_playwright_enter \<notin> set claimed_sequence"
  by (simp add: claimed_sequence_def)

lemma set_executed: "set (executed lib cs) \<subseteq> set cs"
  by (rule set_mono_prefix [OF prefix_executed])

lemma world_effect_driver_update:
  "c \<noteq> Sync_playwright_enter \<Longrightarrow> c \<noteq> Sync_playwright_exit \<Longrightarrow>
   world_effect lib c (w\<lparr>driver_running := b\<rparr>) = (world_effect lib c w)\<lparr>driver_running := b\<rparr>"
  by (cases c) (simp_all add: world_effect_def split: option.splits)

lemma fold_world_effect_driver_update:
  "Sync_playwright_enter \<notin> set cs \<Longrightarrow> Sync_playwright_exit \<notin> set cs \<Longrightarrow>
   fold (world_effect lib) cs (w\<lparr>driver_running := b\<rparr>) =
   (fold (world_effect lib) cs w)\<lparr>driver_running := b\<rparr>"
  by (induction cs arbitrary: w) (auto simp: world_effect_driver_update)

lemma script_enter_raises:
  "raises lib Sync_playwright_enter = Some e \<Longrightarrow>
   script lib w = (Inl e, w\<lparr>trace := trace w @ [(Sync_playwright_enter, Some e)]\<rparr>)"
  by (simp add: script_def module_body_def run_eq with_stmt_def perform_eq world_effect_def)

lemma script_entered:
  assumes "raises lib Sync_playwright_enter = None"
  shows "script lib w =
     ((case raises lib Sync_playwright_exit of
         Some e' \<Rightarrow> Inl e'
       | None \<Rightarrow> first_raise lib claimed_sequence),
      (fold (world_effect lib) (executed lib claimed_sequence) w)
        \<lparr>driver_running := False, browser_running := False,
         trace := trace w @ logged lib
           (Sync_playwright_enter # executed lib claimed_sequence @ [Sync_playwright_exit])\<rparr>)"
proof -
  have a: "Sync_playwright_enter \<notin> set (executed lib claimed_sequence)"
    and b: "Sync_playwright_exit \<notin> set (executed lib claimed_sequence)"
    using set_executed [of lib claimed_sequence] enter_notin_claimed exit_notin_claimed
    by auto
  show ?thesis
    using assms
    by (simp add: script_def module_body_def run_eq with_stmt_def perform_eq world_effect_def
        run_calls_eq fold_world_effect_trace_update
        fold_world_effect_driver_update [OF a b] logged_def split: option.splits)
qed

lemma events_script:
  "events lib w = logged lib
     (if raises lib Sync_playwright_enter = None
      then Sync_playwright_enter # executed lib claimed_sequence @ [Sync_playwright_exit]
      else [Sync_playwright_enter])"
proof (cases "raises lib Sync_playwright_enter")
  case None
  then show ?thesis by (simp add: events_def script_entered)
next
  case (Some e)
  then show ?thesis by (simp add: events_def script_enter_raises logged_def)
qed

lemma calls_made_script:
  "calls_made lib w =
     (if raises lib Sync_playwright_enter = None
      then Sync_playwright_enter # executed lib claimed_sequence @ [Sync_playwright_exit]
      else [Sync_playwright_enter])"
  by (simp add: calls_made_def events_script logged_def comp_def)

lemma body_calls_script:
  "body_calls lib w =
     (if raises lib Sync_playwright_enter = None then executed lib claimed_sequence else [])"
proof -
  have "set (executed lib claimed_sequence) \<subseteq> set claimed_sequence"
    by (rule set_executed)
  then have "\<forall>c\<in>set (executed lib claimed_sequence).
      c \<noteq> Sync_playwright_enter \<and> c \<noteq> Sync_playwright_exit"
    using enter_notin_claimed exit_notin_claimed by auto
  then have "filter (\<lambda>c. c \<noteq> Sync_playwright_enter \<and> c \<noteq> Sync_playwright_exit)
          (executed lib claimed_sequence) = executed lib claimed_sequence"
    by (simp add: filter_id_conv)
  then show ?thesis
    by (simp add: body_calls_def calls_made_script)
qed

subsection \<open>Result, files and subprocesses of a run\<close>

lemma first_raise_ok_iff:
  "first_raise lib cs = Inr () \<longleftrightarrow> (\<forall>c\<in>set cs. raises lib c = None)"
  by (induction cs) (auto split: option.splits)

lemma exit_status_script:
  "exit_status (fst (script lib w)) = 0 \<longleftrightarrow>
     raises lib Sync_playwright_enter = None \<and>
     (\<forall>c\<in>set claimed_sequence. raises lib c = None) \<and>
     raises lib Sync_playwright_exit = None"
proof (cases "raises lib Sync_playwright_enter")
  case None
  have "exit_status (first_raise lib claimed_sequence) = 0 \<longleftrightarrow>
        (\<forall>c\<in>set claimed_sequence. raises lib c = None)"
    using first_raise_ok_iff [of lib claimed_sequence]
    by (cases "first_raise lib claimed_sequence") (simp_all add: exit_status_def)
  with None show ?thesis
    by (auto simp: script_entered exit_status_def split: option.splits)
next
  case (Some e)
  then show ?thesis by (simp add: script_enter_raises exit_status_def)
qed

lemma files_script:
  "files (snd (script lib w)) =
     (if raises lib Sync_playwright_enter = None \<and>
         Page_screenshot \<lparr>path = Some output_path, full_page = None\<rparr>
           \<in> set (executed lib claimed_sequence)
      then (case raises lib (Page_screenshot \<lparr>path = Some output_path, full_page = None\<rparr>) of
              None \<Rightarrow> (files w)(output_path \<mapsto> png_signature @ viewport_pixels lib)
            | Some e \<Rightarrow>
                (case aborted_write lib of
                   None \<Rightarrow> files w
                 | Some bs \<Rightarrow> (files w)(output_path \<mapsto> bs)))
      else files w)"
proof (cases "raises lib Sync_playwright_enter")
  case None
  then show ?thesis
    by (simp add: script_entered claimed_sequence_def world_effect_def captured_def
        split: option.splits)
next
  case (Some e)
  then show ?thesis by (simp add: script_enter_raises)
qed


text \<open>A screenshot that fails after opening its file leaves the file emptied: the old
  content is lost although no image was written.\<close>

lemma failed_write_empties_file:
  "files (snd (script write_denied (fresh_world\<lparr>files := [output_path \<mapsto> [1, 2, 3]]\<rparr>)))
     output_path = Some []"
  by (simp add: files_script claimed_sequence_def write_denied_def)

lemma processes_script:
  "raises lib Sync_playwright_enter = None \<Longrightarrow>
   \<not> browser_running (snd (script lib w)) \<and> \<not> driver_running (snd (script lib w))"
  by (simp add: script_entered)

lemma world_effect_inputs_update:
  "world_effect lib c (w\<lparr>argv := a, environ := v\<rparr>) =
   (world_effect lib c w)\<lparr>argv := a, environ := v\<rparr>"
  by (cases c) (simp_all add: world_effect_def split: option.splits)

lemma fold_world_effect_inputs_update:
  "fold (world_effect lib) cs (w\<lparr>argv := a, environ := v\<rparr>) =
   (fold (world_effect lib) cs w)\<lparr>argv := a, environ := v\<rparr>"
  by (induction cs arbitrary: w) (simp_all add: world_effect_inputs_update)

lemma script_inputs_update:
  "script lib (w\<lparr>argv := a, environ := v\<rparr>) =
     (fst (script lib w), (snd (script lib w))\<lparr>argv := a, environ := v\<rparr>)"
proof (cases "raises lib Sync_playwright_enter")
  case None
  then show ?thesis
    by (simp add: script_entered fold_world_effect_inputs_update)
next
  case (Some e)
  then show ?thesis by (simp add: script_enter_raises)
qed

lemma screenshot_not_executed:
  assumes "raises lib (Page_goto target_url) = Some e \<or>
           raises lib (Page_wait_for_selector heading_selector) = Some e"
  shows "Page_screenshot kw \<notin> set (executed lib claimed_sequence)"
  using assms by (auto simp: claimed_sequence_def)

lemma executed_full_page_pixels:
  "executed (lib\<lparr>full_page_pixels := fp\<rparr>) cs = executed lib cs"
  by (induction cs) simp_all

lemma logged_mem: "(c, r) \<in> set (logged lib cs) \<longleftrightarrow> c \<in> set cs \<and> r = raises lib c"
  by (auto simp: logged_def)

subsection \<open>The claims\<close>

text \<open>
  Claim C1. Every run performs one fixed sequence of operations, in order, without
  branching, retries or loops: launch Chromium headless, open a page, navigate to
  \<open>http://localhost:8080/\<close>, wait for \<open>h1\<close>, capture to
  \<open>jules-scratch/verification/verification.png\<close>, close the browser; a step is executed
  only if every earlier step succeeded.

  The calls of a run are those of the \<open>with\<close> block between entering and leaving the
  session (or the failed attempt to enter alone). The calls of the block are an initial
  segment of the stated sequence; the step at position \<open>i\<close> is made exactly when the
  session was entered and all steps before it returned; when every step returns the
  block makes the whole sequence; and no call is made twice.
\<close>

theorem C1_fixed_linear_sequence:
  "(raises lib Sync_playwright_enter = None \<longrightarrow>
      calls_made lib w = Sync_playwright_enter # body_calls lib w @ [Sync_playwright_exit]) \<and>
   (raises lib Sync_playwright_enter \<noteq> None \<longrightarrow> calls_made lib w = [Sync_playwright_enter]) \<and>
   prefix (body_calls lib w) claimed_sequence \<and>
   (\<forall>i<length claimed_sequence.
      i < length (body_calls lib w) \<longleftrightarrow>
      raises lib Sync_playwright_enter = None \<and> (\<forall>j<i. raises lib (claimed_sequence ! j) = None)) \<and>
   (raises lib Sync_playwright_enter = None \<and> (\<forall>c\<in>set claimed_sequence. raises lib c = None) \<longrightarrow>
      body_calls lib w = claimed_sequence) \<and>
   distinct (calls_made lib w)"
proof (intro conjI)
  show "raises lib Sync_playwright_enter = None \<longrightarrow>
      calls_made lib w = Sync_playwright_enter # body_calls lib w @ [Sync_playwright_exit]"
    by (simp add: calls_made_script body_calls_script)
  show "raises lib Sync_playwright_enter \<noteq> None \<longrightarrow> calls_made lib w = [Sync_playwright_enter]"
    by (simp add: calls_made_script)
  show "prefix (body_calls lib w) claimed_sequence"
    by (simp add: body_calls_script prefix_executed)
  show "\<forall>i<length claimed_sequence.
      i < length (body_calls lib w) \<longleftrightarrow>
      raises lib Sync_playwright_enter = None \<and> (\<forall>j<i. raises lib (claimed_sequence ! j) = None)"
    by (simp add: body_calls_script length_executed_iff)
  show "raises lib Sync_playwright_enter = None \<and> (\<forall>c\<in>set claimed_sequence. raises lib c = None) \<longrightarrow>
      body_calls lib w = claimed_sequence"
    by (simp add: body_calls_script executed_all_ok)
  show "distinct (calls_made lib w)"
  proof -
    obtain rest where "claimed_sequence = executed lib claimed_sequence @ rest"
      using prefix_executed [of lib claimed_sequence] by (auto simp: prefix_def)
    moreover have "distinct claimed_sequence"
      by (simp add: claimed_sequence_def)
    ultimately have "distinct (executed lib claimed_sequence)"
      by (metis distinct_append)
    moreover have "Sync_playwright_enter \<notin> set (executed lib claimed_sequence)"
      and "Sync_playwright_exit \<notin> set (executed lib claimed_sequence)"
      using set_executed [of lib claimed_sequence] enter_notin_claimed exit_notin_claimed
      by auto
    ultimately show ?thesis
      by (simp add: calls_made_script)
  qed
qed

theorem C1_fixed_linear_sequence_witness:
  "raises all_ok Sync_playwright_enter = None \<and>
   calls_made all_ok fresh_world =
     [Sync_playwright_enter,
      Chromium_launch \<lparr>headless = Some True\<rparr>,
      Browser_new_page,
      Page_goto target_url,
      Page_wait_for_selector heading_selector,
      Page_screenshot \<lparr>path = Some output_path, full_page = None\<rparr>,
      Browser_close,
      Sync_playwright_exit]"
  using C1_fixed_linear_sequence [of all_ok fresh_world]
  by (simp add: all_ok_def claimed_sequence_def)

text \<open>
  Claim C2. For every run in which a server is reachable at the URL and renders a heading
  within the default timeout, and the filesystem write succeeds, the script terminates with
  exit status zero and a non-empty image file exists at the output path.

  As stated the claim fails: its three conditions say nothing of the other calls of the
  run. In the run below the navigation, the wait and the screenshot all return and the
  image is on disk, then \<open>browser.close()\<close> raises; nothing catches the exception, and the
  exit status is 1.
\<close>

theorem C2_counterexample:
  "(Page_goto target_url, None) \<in> set (events close_fails fresh_world) \<and>
   (Page_wait_for_selector heading_selector, None) \<in> set (events close_fails fresh_world) \<and>
   (Page_screenshot \<lparr>path = Some output_path, full_page = None\<rparr>, None)
      \<in> set (events close_fails fresh_world) \<and>
   files (snd (script close_fails fresh_world)) output_path
      = Some [137, 80, 78, 71, 13, 10, 26, 10, 73, 72, 68, 82] \<and>
   fst (script close_fails fresh_world) = Inl (Error ''Connection closed'') \<and>
   exit_status (fst (script close_fails fresh_world)) = 1"
  by (simp add: events_script files_script script_entered close_fails_def fresh_world_def
      claimed_sequence_def world_effect_def logged_def exit_status_def png_signature_def
      captured_def)

text \<open>
  Claim C2, amended. For every run in which every library call returns (the session
  starts, the browser launches, a page opens, the navigation reaches the server, the
  heading appears within the timeout, the screenshot is written, the browser closes and
  the session is left), the script terminates with exit status zero, and the file at the
  output path exists and holds the captured PNG image of the viewport, which is not empty.
\<close>

theorem C2_success_when_every_call_returns:
  assumes "raises lib Sync_playwright_enter = None"
    and "\<forall>c\<in>set claimed_sequence. raises lib c = None"
    and "raises lib Sync_playwright_exit = None"
  shows "exit_status (fst (script lib w)) = 0 \<and>
         files (snd (script lib w)) output_path = Some (png_signature @ viewport_pixels lib) \<and>
         png_signature @ viewport_pixels lib \<noteq> []"
proof -
  have "exit_status (fst (script lib w)) = 0"
    using assms by (simp add: exit_status_script)
  moreover have "executed lib claimed_sequence = claimed_sequence"
    using assms(2) by (rule executed_all_ok)
  then have "files (snd (script lib w)) output_path = Some (png_signature @ viewport_pixels lib)"
    using assms(1,2) by (simp add: files_script claimed_sequence_def)
  moreover have "png_signature @ viewport_pixels lib \<noteq> []"
    by (simp add: png_signature_def)
  ultimately show ?thesis by simp
qed

theorem C2_success_when_every_call_returns_witness:
  "raises all_ok Sync_playwright_enter = None \<and>
   raises all_ok Sync_playwright_exit = None \<and>
   exit_status (fst (script all_ok fresh_world)) = 0 \<and>
   files (snd (script all_ok fresh_world)) output_path
     = Some [137, 80, 78, 71, 13, 10, 26, 10, 73, 72, 68, 82]"
  using C2_success_when_every_call_returns [of all_ok fresh_world]
  by (simp add: all_ok_def png_signature_def)

text \<open>
  Claim C3. For every run in which the navigation succeeds but no element matching \<open>h1\<close>
  appears within the wait's timeout, the script terminates with a non-zero exit status and
  produces no screenshot: the screenshot call is never made, and the files on disk are what
  they were before the run.
\<close>

theorem C3_no_heading_aborts:
  assumes "raises lib (Page_goto target_url) = None"
    and "raises lib (Page_wait_for_selector heading_selector) = Some e"
  shows "exit_status (fst (script lib w)) \<noteq> 0 \<and>
         (\<forall>kw. Page_screenshot kw \<notin> set (calls_made lib w)) \<and>
         files (snd (script lib w)) = files w"
proof (intro conjI allI)
  have "Page_wait_for_selector heading_selector \<in> set claimed_sequence"
    by (simp add: claimed_sequence_def)
  with assms(2) show "exit_status (fst (script lib w)) \<noteq> 0"
    by (auto simp: exit_status_script)
  show "Page_screenshot kw \<notin> set (calls_made lib w)" for kw
    using screenshot_not_executed [of lib e kw] assms(2) by (simp add: calls_made_script)
  show "files (snd (script lib w)) = files w"
    using screenshot_not_executed [of lib e] assms(2) by (simp add: files_script)
qed

theorem C3_no_heading_aborts_witness:
  "raises no_heading (Page_goto target_url) = None \<and>
   raises no_heading (Page_wait_for_selector heading_selector)
     = Some (TimeoutError ''Timeout 30000ms exceeded.'') \<and>
   exit_status (fst (script no_heading fresh_world)) \<noteq> 0 \<and>
   files (snd (script no_heading fresh_world)) output_path = None"
  using C3_no_heading_aborts [of no_heading "TimeoutError ''Timeout 30000ms exceeded.''" fresh_world]
  by (simp add: no_heading_def fresh_world_def)

text \<open>
  Claim C4. For every run in which the browser was launched, the browser subprocess is
  released before the script exits, on every exit path, whether the later steps succeed
  or fail: the last call of the run is the one that leaves the session, and after it
  neither the browser nor the driver is running. The theorem holds for every behaviour of
  the library after the launch, so for a failure of any later step.
\<close>

theorem C4_browser_released_on_every_path:
  assumes "(Chromium_launch \<lparr>headless = Some True\<rparr>, None) \<in> set (events lib w)"
  shows "\<not> browser_running (snd (script lib w)) \<and>
         \<not> driver_running (snd (script lib w)) \<and>
         last (calls_made lib w) = Sync_playwright_exit"
proof -
  have "raises lib Sync_playwright_enter = None"
  proof (rule ccontr)
    assume "raises lib Sync_playwright_enter \<noteq> None"
    then have "events lib w = logged lib [Sync_playwright_enter]"
      by (auto simp: events_script)
    with assms show False by (simp add: logged_mem)
  qed
  then show ?thesis
    by (simp add: processes_script calls_made_script)
qed

theorem C4_browser_released_on_every_path_witness:
  "(Chromium_launch \<lparr>headless = Some True\<rparr>, None) \<in> set (events no_heading fresh_world) \<and>
   (Page_wait_for_selector heading_selector, Some (TimeoutError ''Timeout 30000ms exceeded.''))
      \<in> set (events no_heading fresh_world) \<and>
   \<not> browser_running (snd (script no_heading fresh_world)) \<and>
   last (calls_made no_heading fresh_world) = Sync_playwright_exit"
  using C4_browser_released_on_every_path [of no_heading fresh_world]
  by (simp add: events_script logged_def claimed_sequence_def no_heading_def)

text \<open>
  Claim C5. For every run in which no server listens at the URL, so that the navigation
  fails, the script terminates with a non-zero exit status and produces no output file:
  the screenshot call is never made, and the files on disk are what they were before.
\<close>

theorem C5_no_server_aborts:
  assumes "raises lib (Page_goto target_url) = Some e"
  shows "exit_status (fst (script lib w)) \<noteq> 0 \<and>
         (\<forall>kw. Page_screenshot kw \<notin> set (calls_made lib w)) \<and>
         files (snd (script lib w)) = files w"
proof (intro conjI allI)
  have "Page_goto target_url \<in> set claimed_sequence"
    by (simp add: claimed_sequence_def)
  with assms show "exit_status (fst (script lib w)) \<noteq> 0"
    by (auto simp: exit_status_script)
  show "Page_screenshot kw \<notin> set (calls_made lib w)" for kw
    using screenshot_not_executed [of lib e kw] assms by (simp add: calls_made_script)
  show "files (snd (script lib w)) = files w"
    using screenshot_not_executed [of lib e] assms by (simp add: files_script)
qed

theorem C5_no_server_aborts_witness:
  "raises no_server (Page_goto target_url) = Some (Error ''net::ERR_CONNECTION_REFUSED'') \<and>
   exit_status (fst (script no_server fresh_world)) \<noteq> 0 \<and>
   files (snd (script no_server fresh_world)) output_path = None"
  using C5_no_server_aborts [of no_server "Error ''net::ERR_CONNECTION_REFUSED''" fresh_world]
  by (simp add: no_server_def fresh_world_def)

text \<open>
  Claim C6. For every run in which all steps up to the wait succeed and writing the
  screenshot fails (for any reason: the exception \<open>e\<close> is arbitrary, a \<open>PermissionError\<close>
  or a \<open>FileNotFoundError\<close> included), the failure is fatal: the exception propagates
  uncaught and the exit status is non-zero. The exception that reaches the top level is
  \<open>e\<close> itself, unless leaving the session raises in turn, in which case it is that later
  exception; and the script does not go on to close the browser. What the failed write
  leaves at the output path (the file as it was, emptied, or partly written) is the
  environment's, and the theorem says nothing of it. Playwright creates a missing parent
  directory itself before it writes, so that cause reaches the script only when the
  creation fails; the theorem covers whatever exception the call raises.
\<close>

theorem C6_write_failure_is_fatal:
  assumes "raises lib Sync_playwright_enter = None"
    and "raises lib (Chromium_launch \<lparr>headless = Some True\<rparr>) = None"
    and "raises lib Browser_new_page = None"
    and "raises lib (Page_goto target_url) = None"
    and "raises lib (Page_wait_for_selector heading_selector) = None"
    and "raises lib (Page_screenshot \<lparr>path = Some output_path, full_page = None\<rparr>) = Some e"
  shows "exit_status (fst (script lib w)) \<noteq> 0 \<and>
         fst (script lib w) =
           Inl (case raises lib Sync_playwright_exit of None \<Rightarrow> e | Some e' \<Rightarrow> e') \<and>
         Browser_close \<notin> set (calls_made lib w)"
proof -
  have r: "first_raise lib claimed_sequence = Inl e"
    using assms by (simp add: claimed_sequence_def)
  have x: "executed lib claimed_sequence =
      [Chromium_launch \<lparr>headless = Some True\<rparr>, Browser_new_page, Page_goto target_url,
       Page_wait_for_selector heading_selector,
       Page_screenshot \<lparr>path = Some output_path, full_page = None\<rparr>]"
    using assms by (simp add: claimed_sequence_def)
  have "fst (script lib w) =
      Inl (case raises lib Sync_playwright_exit of None \<Rightarrow> e | Some e' \<Rightarrow> e')"
    using assms(1) r by (simp add: script_entered split: option.splits)
  moreover from this have "exit_status (fst (script lib w)) \<noteq> 0"
    by (simp add: exit_status_def)
  moreover have "Browser_close \<notin> set (calls_made lib w)"
    using assms(1) x by (simp add: calls_made_script)
  ultimately show ?thesis by simp
qed

theorem C6_write_failure_is_fatal_witness:
  "raises write_denied (Page_screenshot \<lparr>path = Some output_path, full_page = None\<rparr>)
     = Some (PermissionError ''Permission denied'') \<and>
   fst (script write_denied fresh_world) = Inl (PermissionError ''Permission denied'') \<and>
   exit_status (fst (script write_denied fresh_world)) \<noteq> 0"
  using C6_write_failure_is_fatal [of write_denied "PermissionError ''Permission denied''" fresh_world]
  by (simp add: write_denied_def exit_status_def)



text \<open>
  Claim C8. The script's behaviour does not depend on command-line arguments or
  environment variables: a run started with other arguments and another environment
  returns the same result, makes the same calls with the same outcomes, and leaves the
  same world, up to the arguments and the environment themselves. Whatever the library
  answers (\<open>lib'\<close> is any library, so also one that reads the environment), the calls of
  the block are an initial segment of the same fixed sequence, with the same URL, selector
  and output path.
\<close>

theorem C8_arguments_and_environment_ignored:
  "fst (script lib (w\<lparr>argv := a, environ := v\<rparr>)) = fst (script lib w) \<and>
   snd (script lib (w\<lparr>argv := a, environ := v\<rparr>)) = (snd (script lib w))\<lparr>argv := a, environ := v\<rparr> \<and>
   events lib (w\<lparr>argv := a, environ := v\<rparr>) = events lib w \<and>
   prefix (body_calls lib w) claimed_sequence \<and>
   prefix (body_calls lib' (w\<lparr>argv := a, environ := v\<rparr>)) claimed_sequence"
proof (intro conjI)
  show "fst (script lib (w\<lparr>argv := a, environ := v\<rparr>)) = fst (script lib w)"
    by (simp add: script_inputs_update)
  show "snd (script lib (w\<lparr>argv := a, environ := v\<rparr>)) =
      (snd (script lib w))\<lparr>argv := a, environ := v\<rparr>"
    by (simp add: script_inputs_update)
  show "events lib (w\<lparr>argv := a, environ := v\<rparr>) = events lib w"
    by (simp add: events_script)
  show "prefix (body_calls lib w) claimed_sequence"
    by (simp add: body_calls_script prefix_executed)
  show "prefix (body_calls lib' (w\<lparr>argv := a, environ := v\<rparr>)) claimed_sequence"
    by (simp add: body_calls_script prefix_executed)
qed

theorem C8_arguments_and_environment_ignored_witness:
  "calls_made all_ok
     (fresh_world\<lparr>argv := [''verify_mui_ui.py'', ''--url'', ''http://example.org/''],
                  environ := [''HEADLESS'' \<mapsto> ''0'']\<rparr>)
   = calls_made all_ok fresh_world \<and>
   files (snd (script all_ok
     (fresh_world\<lparr>argv := [''verify_mui_ui.py'', ''--url'', ''http://example.org/''],
                  environ := [''HEADLESS'' \<mapsto> ''0'']\<rparr>)))
   = files (snd (script all_ok fresh_world))"
  using C8_arguments_and_environment_ignored
    [where lib = all_ok and w = fresh_world
       and a = "[''verify_mui_ui.py'', ''--url'', ''http://example.org/'']"
       and v = "[''HEADLESS'' \<mapsto> ''0'']" and lib' = all_ok]
  by (simp add: calls_made_def)

text \<open>
  Claim C9. The browser is launched in headless mode: in every run, every launch call
  passes \<open>headless=True\<close>, and a run that enters the session makes that call.
\<close>

theorem C9_launch_is_headless:
  "(\<forall>kw. Chromium_launch kw \<in> set (calls_made lib w) \<longrightarrow> headless kw = Some True) \<and>
   (raises lib Sync_playwright_enter = None \<longrightarrow>
      Chromium_launch \<lparr>headless = Some True\<rparr> \<in> set (calls_made lib w))"
proof (intro conjI allI impI)
  fix kw
  assume "Chromium_launch kw \<in> set (calls_made lib w)"
  then have "Chromium_launch kw \<in> set (executed lib claimed_sequence)"
    by (simp add: calls_made_script split: if_splits)
  then have "Chromium_launch kw \<in> set claimed_sequence"
    using set_executed by blast
  then show "headless kw = Some True"
    by (auto simp: claimed_sequence_def)
next
  assume "raises lib Sync_playwright_enter = None"
  then show "Chromium_launch \<lparr>headless = Some True\<rparr> \<in> set (calls_made lib w)"
    by (simp add: calls_made_script claimed_sequence_def)
qed

theorem C9_launch_is_headless_witness:
  "Chromium_launch \<lparr>headless = Some True\<rparr> \<in> set (calls_made no_server fresh_world) \<and>
   Chromium_launch \<lparr>headless = Some False\<rparr> \<notin> set (calls_made no_server fresh_world) \<and>
   Chromium_launch \<lparr>headless = None\<rparr> \<notin> set (calls_made no_server fresh_world)"
  using C9_launch_is_headless [of no_server fresh_world]
  by (auto simp: no_server_def)

text \<open>
  Claim C10. The screenshot call does not set the full-page option, so the captured image
  is of the page's viewport, whatever the page contains below the fold: every screenshot
  call of a run leaves \<open>full_page\<close> unset and yields the viewport's image, and the files a
  run leaves do not depend on the page's full-height image.
\<close>

theorem C10_capture_is_of_the_viewport:
  "(\<forall>kw. Page_screenshot kw \<in> set (calls_made lib w) \<longrightarrow>
      full_page kw = None \<and> captured lib kw = png_signature @ viewport_pixels lib) \<and>
   files (snd (script (lib\<lparr>full_page_pixels := fp\<rparr>) w)) = files (snd (script lib w))"
proof (intro conjI allI impI)
  fix kw
  assume "Page_screenshot kw \<in> set (calls_made lib w)"
  then have "Page_screenshot kw \<in> set (executed lib claimed_sequence)"
    by (simp add: calls_made_script split: if_splits)
  then have "Page_screenshot kw \<in> set claimed_sequence"
    using set_executed by blast
  then have kw: "kw = \<lparr>path = Some output_path, full_page = None\<rparr>"
    by (auto simp: claimed_sequence_def)
  then show "full_page kw = None" by simp
  from kw show "captured lib kw = png_signature @ viewport_pixels lib"
    by (simp add: captured_def)
next
  show "files (snd (script (lib\<lparr>full_page_pixels := fp\<rparr>) w)) = files (snd (script lib w))"
    by (simp add: files_script executed_full_page_pixels split: option.splits)
qed

theorem C10_capture_is_of_the_viewport_witness:
  "Page_screenshot \<lparr>path = Some output_path, full_page = None\<rparr>
     \<in> set (calls_made all_ok fresh_world) \<and>
   Page_screenshot \<lparr>path = Some output_path, full_page = Some True\<rparr>
     \<notin> set (calls_made all_ok fresh_world) \<and>
   files (snd (script all_ok fresh_world)) output_path
     = Some [137, 80, 78, 71, 13, 10, 26, 10, 73, 72, 68, 82] \<and>
   files (snd (script (all_ok\<lparr>full_page_pixels := replicate 4096 0\<rparr>) fresh_world)) output_path
     = Some [137, 80, 78, 71, 13, 10, 26, 10, 73, 72, 68, 82]"
proof -
  have "Page_screenshot \<lparr>path = Some output_path, full_page = None\<rparr>
     \<in> set (calls_made all_ok fresh_world)"
    by (simp add: calls_made_script claimed_sequence_def all_ok_def)
  moreover have "files (snd (script all_ok fresh_world)) output_path
     = Some [137, 80, 78, 71, 13, 10, 26, 10, 73, 72, 68, 82]"
    by (simp add: files_script claimed_sequence_def all_ok_def png_signature_def)
  ultimately show ?thesis
    using C10_capture_is_of_the_viewport
      [where lib = all_ok and w = fresh_world and fp = "replicate 4096 0"]
    by auto
qed

end
